theory Spec2Isabelle
  imports Main "HOL-Library.Sublist"
begin

section \<open>Python strings\<close>

text \<open>
  A Python \<open>str\<close> is a \<open>string\<close>; every \<open>char\<close> stands for one code point
  below 256. The string methods that \<open>search.py\<close> calls are written out here with the
  behaviour of the interpreter: \<open>strip()\<close> removes the code points for which
  \<open>str.isspace\<close> holds, which are more than the six of \<open>string.whitespace\<close>.
\<close>

abbreviation BSL :: char where
  "BSL \<equiv> CHR 0x5C"

definition isspace :: "char \<Rightarrow> bool" where
  "isspace c = (c \<in> set [CHR 0x09, CHR 0x0A, CHR 0x0B, CHR 0x0C, CHR 0x0D,
                           CHR 0x1C, CHR 0x1D, CHR 0x1E, CHR 0x1F, CHR 0x20,
                           CHR 0x85, CHR 0xA0])"

text \<open>\<open>string.whitespace\<close>: space, tab, linefeed, return, vertical tab, formfeed.\<close>

definition whitespace :: string where
  "whitespace = [CHR 0x20, CHR 0x09, CHR 0x0A, CHR 0x0D, CHR 0x0B, CHR 0x0C]"

definition strip :: "string \<Rightarrow> string" where
  "strip s = rev (dropWhile isspace (rev (dropWhile isspace s)))"

definition startswith :: "string \<Rightarrow> string \<Rightarrow> bool" where
  "startswith s p = prefix p s"

definition endswith :: "string \<Rightarrow> string \<Rightarrow> bool" where
  "endswith s p = prefix (rev p) (rev s)"

text \<open>\<open>sub in s\<close>: \<open>sub\<close> occurs in \<open>s\<close> as a contiguous run.\<close>

fun contains :: "string \<Rightarrow> string \<Rightarrow> bool" where
  "contains sub [] = (sub = [])"
| "contains sub (c # cs) = (prefix sub (c # cs) \<or> contains sub cs)"

text \<open>\<open>s.count(c)\<close> for a one-character \<open>c\<close>.\<close>

definition count :: "string \<Rightarrow> char \<Rightarrow> nat" where
  "count s c = length (filter (\<lambda>x. x = c) s)"

text \<open>
  \<open>s.partition(sep)\<close> cuts at the first occurrence of \<open>sep\<close>; when there is none it
  returns \<open>(s, '', '')\<close>. Every separator of \<open>search.py\<close> is a non-empty literal
  (Python raises on an empty one).
\<close>

fun partition_str :: "string \<Rightarrow> string \<Rightarrow> string \<times> string \<times> string" where
  "partition_str sep [] = ([], [], [])"
| "partition_str sep (c # cs) =
     (if prefix sep (c # cs) then ([], sep, drop (length sep) (c # cs))
      else (case partition_str sep cs of (before, m, after) \<Rightarrow> (c # before, m, after)))"

text \<open>
  \<open>s.split(sep)\<close>: the pieces between the occurrences of \<open>sep\<close>, found from the left
  without overlap; \<open>cur\<close> holds the piece being read, reversed.
\<close>

function split_from :: "string \<Rightarrow> string \<Rightarrow> string \<Rightarrow> string list" where
  "split_from sep cur [] = [rev cur]"
| "split_from sep cur (c # cs) =
     (if sep \<noteq> [] \<and> prefix sep (c # cs)
      then rev cur # split_from sep [] (drop (length sep) (c # cs))
      else split_from sep (c # cur) cs)"
  by pat_completeness auto
termination
  by (relation "measure (\<lambda>(sep, cur, s). length s)") auto

definition split :: "string \<Rightarrow> string \<Rightarrow> string list" where
  "split s sep = split_from sep [] s"

text \<open>\<open>s.replace(old, new)\<close> for a non-empty \<open>old\<close>: every occurrence, from the left.\<close>

function replace_from :: "string \<Rightarrow> string \<Rightarrow> string \<Rightarrow> string" where
  "replace_from old new [] = []"
| "replace_from old new (c # cs) =
     (if old \<noteq> [] \<and> prefix old (c # cs)
      then new @ replace_from old new (drop (length old) (c # cs))
      else c # replace_from old new cs)"
  by pat_completeness auto
termination
  by (relation "measure (\<lambda>(old, new, s). length s)") auto

definition replace :: "string \<Rightarrow> string \<Rightarrow> string \<Rightarrow> string" where
  "replace s old new = replace_from old new s"

text \<open>\<open>s.lower()\<close> on code points below 256: A to Z and the accented capitals.\<close>

definition lower_char :: "char \<Rightarrow> char" where
  "lower_char c =
     (let n = (of_char c :: nat)
      in if (65 \<le> n \<and> n \<le> 90) \<or> (192 \<le> n \<and> n \<le> 222 \<and> n \<noteq> 215)
         then char_of (n + 32) else c)"

definition lower :: "string \<Rightarrow> string" where
  "lower s = map lower_char s"

section \<open>The filter tree\<close>

datatype node_tag =
    ROOT | AND | OR | NOT
  | MATCH_APPROX | MATCH_GREATER_OR_EQUAL | MATCH_LESS_OR_EQUAL | MATCH_EXTENSIBLE
  | MATCH_PRESENT | MATCH_SUBSTRING | MATCH_EQUAL

datatype scan_state =
    SEARCH_OPEN | SEARCH_OPEN_OR_CLOSE | SEARCH_MATCH_OR_CLOSE | SEARCH_MATCH_OR_CONTROL

text \<open>
  The assertion dictionaries of \<open>evaluate_match\<close>, one constructor for each set of keys:
  \<open>attr\<close>, \<open>value\<close>; \<open>attr\<close>, \<open>value\<close>, \<open>matchingRule\<close>, \<open>dnAttributes\<close>; \<open>attr\<close>;
  \<open>attr\<close>, \<open>initial\<close>, \<open>any\<close>, \<open>final\<close>. A value that can be \<open>None\<close> is an option.
\<close>

datatype assertion =
    AttrValue string string
  | AttrValueRule "string option" string "string option" "bool option"
  | Attr string
  | AttrSubstrings string "string option" "string list" "string option"

text \<open>
  \<open>FilterNode\<close>: tag, assertion and the owned children. The \<open>parent\<close> field is a
  back-reference for the parser's cursor only; here a node is addressed by the path of child
  indices that leads to it from the root, and its parent by the path without the last index.
\<close>

datatype FilterNode =
  FilterNode (tag: node_tag) (assertion: "assertion option") (elements: "FilterNode list")

text \<open>
  What can be raised: the library's \<open>LDAPException\<close> with its message, the
  interpreter's own exceptions, and the refusal of a value by a field of the protocol
  module.
\<close>

datatype error =
    LDAPException string | ValueError | AttributeError | IndexError | TypeError | KeyError
  | ValueConstraintError

section \<open>Assertion values and leaf clauses\<close>

text \<open>
  \<open>validate_assertion_value\<close>: six replacements are assigned back to \<open>value\<close>; the
  seventh, for \<open>\00\<close>, is computed and dropped, and \<open>value\<close> is returned as it was.
\<close>

definition validate_assertion_value :: "string \<Rightarrow> string" where
  "validate_assertion_value raw =
     (let v = strip raw;
          v = (if contains (BSL # ''2a'') v then replace v (BSL # ''2a'') ''*'' else v);
          v = (if contains (BSL # ''2A'') v then replace v (BSL # ''2A'') ''*'' else v);
          v = (if contains (BSL # ''28'') v then replace v (BSL # ''28'') ''('' else v);
          v = (if contains (BSL # ''29'') v then replace v (BSL # ''29'') '')'' else v);
          v = (if contains (BSL # ''5c'') v then replace v (BSL # ''5c'') [BSL] else v);
          v = (if contains (BSL # ''5C'') v then replace v (BSL # ''5C'') [BSL] else v);
          dropped = (if contains (BSL # ''00'') v
                     then replace v (BSL # ''00'') [CHR 0x00] else v)
      in v)"

text \<open>A Python value used as a condition: \<open>None\<close> and the empty string are false.\<close>

definition truthy :: "string option \<Rightarrow> bool" where
  "truthy v = (case v of None \<Rightarrow> False | Some s \<Rightarrow> s \<noteq> [])"

text \<open>
  The left side of an extensible clause, split on \<open>:\<close>, gives
  \<open>(attribute_name, matching_rule, dn_attributes)\<close> or the error of the two explicit
  \<open>raise\<close> statements. A list of more than three pieces with a non-empty first piece takes
  neither branch and leaves all three \<open>None\<close>.
\<close>

definition extensible_parts ::
  "string list \<Rightarrow> error + (string option \<times> string option \<times> bool option)" where
  "extensible_parts efl =
     (case efl of
        [] \<Rightarrow> Inl IndexError
      | e0 # _ \<Rightarrow>
          if e0 = [] then
            if length efl = 2 \<and> strip (lower (efl ! 1)) \<noteq> ''dn''
            then Inr (None, Some (validate_assertion_value (efl ! 1)), None)
            else if length efl = 3 \<and> strip (lower (efl ! 1)) = ''dn''
            then Inr (None, Some (validate_assertion_value (efl ! 2)), Some True)
            else Inl (LDAPException ''invalid extensible filter'')
          else if length efl \<le> 3 then
            if length efl = 1 then Inr (Some e0, None, None)
            else if length efl = 2 then
              (if strip (lower (efl ! 1)) = ''dn''
               then Inr (Some e0, None, Some True)
               else Inr (Some e0, Some (validate_assertion_value (efl ! 1)), None))
            else if length efl = 3 \<and> strip (lower (efl ! 1)) = ''dn''
            then Inr (Some e0, Some (validate_assertion_value (efl ! 2)), Some True)
            else Inl (LDAPException ''invalid extensible filter'')
          else Inr (None, None, None))"

definition evaluate_match :: "string \<Rightarrow> error + FilterNode" where
  "evaluate_match raw =
     (let m = strip raw in
      if contains ''~='' m then
        (case split m ''~='' of
           [left_part, _, right_part] \<Rightarrow>
             Inr (FilterNode MATCH_APPROX
                   (Some (AttrValue (strip left_part) (validate_assertion_value right_part))) [])
         | _ \<Rightarrow> Inl ValueError)
      else if contains ''>='' m then
        (case partition_str ''>='' m of (left_part, _, right_part) \<Rightarrow>
           Inr (FilterNode MATCH_GREATER_OR_EQUAL
                 (Some (AttrValue (strip left_part) (validate_assertion_value right_part))) []))
      else if contains ''<='' m then
        (case partition_str ''<='' m of (left_part, _, right_part) \<Rightarrow>
           Inr (FilterNode MATCH_LESS_OR_EQUAL
                 (Some (AttrValue (strip left_part) (validate_assertion_value right_part))) []))
      else if contains '':='' m then
        (case partition_str '':='' m of (left_part, _, right_part) \<Rightarrow>
           (case extensible_parts (split left_part '':'') of
              Inl e \<Rightarrow> Inl e
            | Inr (attribute_name, matching_rule, dn_attributes) \<Rightarrow>
                if \<not> truthy attribute_name \<and> \<not> truthy matching_rule
                then Inl (LDAPException ''invalid extensible filter'')
                else Inr (FilterNode MATCH_EXTENSIBLE
                       (Some (AttrValueRule
                          (if truthy attribute_name then map_option strip attribute_name else None)
                          (validate_assertion_value right_part)
                          (if truthy matching_rule then map_option strip matching_rule else None)
                          dn_attributes)) [])))
      else if endswith m ''=*'' then
        Inr (FilterNode MATCH_PRESENT (Some (Attr (take (length m - 2) m))) [])
      else if contains ''='' m \<and> contains ''*'' m then
        (case partition_str ''='' m of (left_part, _, right_part) \<Rightarrow>
           (let substrings = split right_part ''*'';
                initial = (if hd substrings \<noteq> []
                           then Some (validate_assertion_value (hd substrings)) else None);
                final = (if last substrings \<noteq> []
                         then Some (validate_assertion_value (last substrings)) else None);
                any_string = map validate_assertion_value
                               (filter (\<lambda>substring. substring \<noteq> []) (butlast (tl substrings)))
            in Inr (FilterNode MATCH_SUBSTRING
                     (Some (AttrSubstrings left_part initial any_string final)) [])))
      else if contains ''='' m then
        (case partition_str ''='' m of (left_part, _, right_part) \<Rightarrow>
           Inr (FilterNode MATCH_EQUAL
                 (Some (AttrValue (strip left_part) (validate_assertion_value right_part))) []))
      else Inl (LDAPException ''invalid matching assertion''))"

section \<open>The parser\<close>

text \<open>
  The node at a path, and the tree with one more child under the node at a path. Children
  are only ever appended, so the path of a node never changes.
\<close>

fun node_at :: "FilterNode \<Rightarrow> nat list \<Rightarrow> FilterNode option" where
  "node_at n [] = Some n"
| "node_at n (i # path) =
     (if i < length (elements n) then node_at (elements n ! i) path else None)"

fun append_at :: "FilterNode \<Rightarrow> nat list \<Rightarrow> FilterNode \<Rightarrow> FilterNode" where
  "append_at (FilterNode t a es) [] filter_node = FilterNode t a (es @ [filter_node])"
| "append_at (FilterNode t a es) (i # path) filter_node =
     (if i < length es
      then FilterNode t a (es[i := append_at (es ! i) path filter_node])
      else FilterNode t a es)"

text \<open>
  \<open>FilterNode.append\<close> on the node \<open>self\<close> of the tree under \<open>root\<close>: the new child
  gets \<open>self\<close> as parent, goes last in \<open>self.elements\<close>, and is returned (its path).
  \<open>self\<close> is \<open>None\<close> when the cursor has left the tree: the attribute lookup fails.
  The cursor only ever holds the path of a node that was appended, so the path leads to a
  node; a path that led to none is given the same result.
\<close>

definition append_node ::
  "FilterNode \<Rightarrow> nat list option \<Rightarrow> FilterNode \<Rightarrow> error + FilterNode \<times> nat list" where
  "append_node root self filter_node =
     (case self of
        None \<Rightarrow> Inl AttributeError
      | Some path \<Rightarrow>
          (case node_at root path of
             None \<Rightarrow> Inl AttributeError
           | Some n \<Rightarrow> Inr (append_at root path filter_node, path @ [length (elements n)])))"

text \<open>\<open>node.parent\<close>: \<open>None\<close> for the root, which nothing was appended to.\<close>

definition parent :: "nat list \<Rightarrow> nat list option" where
  "parent path = (if path = [] then None else Some (butlast path))"

record parser =
  state :: scan_state
  root :: FilterNode
  current_node :: "nat list option"
  start_pos :: "nat option"
  skip_white_space :: bool
  just_closed :: bool

text \<open>\<open>if start_pos\<close>: \<open>None\<close> and 0 are false.\<close>

definition pos_set :: "nat option \<Rightarrow> bool" where
  "pos_set p = (case p of None \<Rightarrow> False | Some n \<Rightarrow> n \<noteq> 0)"

text \<open>The body of the \<open>for pos, c in enumerate(search_filter)\<close> loop.\<close>

definition parse_step :: "string \<Rightarrow> parser \<Rightarrow> nat \<Rightarrow> char \<Rightarrow> error + parser" where
  "parse_step search_filter p pos c =
     (if skip_white_space p \<and> c \<in> set whitespace then Inr p
      else if (state p = SEARCH_OPEN \<or> state p = SEARCH_OPEN_OR_CLOSE) \<and> c = CHR ''(''
      then Inr (p\<lparr>state := SEARCH_MATCH_OR_CONTROL, just_closed := False\<rparr>)
      else if state p = SEARCH_MATCH_OR_CONTROL \<and> c \<in> set ''&!|''
      then
        (case append_node (root p) (current_node p)
                (FilterNode (if c = CHR ''&'' then AND else if c = CHR ''|'' then OR else NOT)
                   None []) of
           Inl e \<Rightarrow> Inl e
         | Inr (r, child) \<Rightarrow>
             Inr (p\<lparr>root := r, current_node := Some child, state := SEARCH_OPEN\<rparr>))
      else if (state p = SEARCH_MATCH_OR_CLOSE \<or> state p = SEARCH_OPEN_OR_CLOSE) \<and> c = CHR '')''
      then
        (if just_closed p then
           (case current_node p of
              None \<Rightarrow> Inl AttributeError
            | Some cur \<Rightarrow>
                Inr (p\<lparr>current_node := parent cur, start_pos := None,
                       state := SEARCH_OPEN_OR_CLOSE\<rparr>))
         else if pos_set (start_pos p) then
           (case current_node p of
              None \<Rightarrow> Inl AttributeError
            | Some cur \<Rightarrow>
                (case node_at (root p) cur of
                   None \<Rightarrow> Inl AttributeError
                 | Some n \<Rightarrow>
                     if tag n = NOT \<and> length (elements n) > 0
                     then Inl (LDAPException ''Not clause in filter cannot be multiple'')
                     else
                       (case evaluate_match
                               (take (pos - the (start_pos p))
                                  (drop (the (start_pos p)) search_filter)) of
                          Inl e \<Rightarrow> Inl e
                        | Inr leaf \<Rightarrow>
                            (case append_node (root p) (Some cur) leaf of
                               Inl e \<Rightarrow> Inl e
                             | Inr (r, _) \<Rightarrow>
                                 Inr (p\<lparr>root := r, just_closed := True,
                                        skip_white_space := True, start_pos := None,
                                        state := SEARCH_OPEN_OR_CLOSE\<rparr>)))))
         else Inr (p\<lparr>just_closed := True, skip_white_space := True, start_pos := None,
                     state := SEARCH_OPEN_OR_CLOSE\<rparr>))
      else if (state p = SEARCH_MATCH_OR_CLOSE \<or> state p = SEARCH_MATCH_OR_CONTROL)
              \<and> c \<notin> set ''()''
      then Inr (p\<lparr>skip_white_space := False,
                  start_pos := (if pos_set (start_pos p) then start_pos p else Some pos),
                  state := SEARCH_MATCH_OR_CLOSE\<rparr>)
      else Inl (LDAPException ''malformed filter''))"

fun parse_loop :: "string \<Rightarrow> parser \<Rightarrow> (nat \<times> char) list \<Rightarrow> error + parser" where
  "parse_loop search_filter p [] = Inr p"
| "parse_loop search_filter p ((pos, c) # rest) =
     (case parse_step search_filter p pos c of
        Inl e \<Rightarrow> Inl e
      | Inr p' \<Rightarrow> parse_loop search_filter p' rest)"

definition parse_filter :: "string \<Rightarrow> error + FilterNode" where
  "parse_filter raw =
     (let search_filter = strip raw in
      if search_filter \<noteq> [] \<and> count search_filter (CHR ''('') = count search_filter (CHR '')'')
         \<and> startswith search_filter ''('' \<and> endswith search_filter '')''
      then
        (case parse_loop search_filter
                \<lparr>state = SEARCH_OPEN_OR_CLOSE, root = FilterNode ROOT None [],
                 current_node = Some [], start_pos = None, skip_white_space = True,
                 just_closed = False\<rparr>
                (enumerate 0 search_filter) of
           Inl e \<Rightarrow> Inl e
         | Inr p \<Rightarrow>
             if length (elements (root p)) \<noteq> 1
             then Inl (LDAPException ''missing boolean operator in filter'')
             else Inr (root p))
      else Inl (LDAPException ''invalid filter''))"

section \<open>The wire filter and the compiler\<close>

text \<open>
  The \<open>Filter\<close> CHOICE of the protocol module, one constructor for each component name.
  The field classes (\<open>AttributeDescription\<close>, \<open>AssertionValue\<close>, \<open>MatchingRule\<close> and
  the others) are containers of the value they are built from and are not written out.
\<close>

datatype Substring = Initial string | Any string | Final string

datatype Filter =
    F_and "Filter list"
  | F_or "Filter list"
  | F_notFilter Filter
  | F_equalityMatch string string
  | F_substringFilter string "Substring list"
  | F_greaterOrEqual string string
  | F_lessOrEqual string string
  | F_present string
  | F_approxMatch string string
  | F_extensibleMatch "string option" "string option" string "bool option"

text \<open>The results of a list of calls, or the first exception among them.\<close>

fun collect :: "(error + 'a) list \<Rightarrow> error + 'a list" where
  "collect [] = Inr []"
| "collect (Inl e # rs) = Inl e"
| "collect (Inr x # rs) = (case collect rs of Inl e \<Rightarrow> Inl e | Inr xs \<Rightarrow> Inr (x # xs))"

text \<open>
  Reading \<open>assertion['attr']\<close> and \<open>assertion['value']\<close> from a node.
  \<open>evaluate_match\<close> builds every leaf with the dictionary of its tag, and the compiler
  reads that dictionary; for a leaf put together by hand with no dictionary or with the
  dictionary of another tag, the compiler's result here is a failed subscript.
\<close>

definition attr_and_value :: "assertion option \<Rightarrow> error + string \<times> string" where
  "attr_and_value a =
     (case a of
        None \<Rightarrow> Inl TypeError
      | Some (AttrValue attr v) \<Rightarrow> Inr (attr, v)
      | Some _ \<Rightarrow> Inl KeyError)"

fun compile_filter :: "FilterNode \<Rightarrow> error + Filter" where
  "compile_filter (FilterNode AND a es) =
     (case collect (map compile_filter es) of Inl e \<Rightarrow> Inl e | Inr fs \<Rightarrow> Inr (F_and fs))"
| "compile_filter (FilterNode OR a es) =
     (case collect (map compile_filter es) of Inl e \<Rightarrow> Inl e | Inr fs \<Rightarrow> Inr (F_or fs))"
| "compile_filter (FilterNode NOT a es) =
     (case es of
        [] \<Rightarrow> Inl IndexError
      | e0 # _ \<Rightarrow> (case compile_filter e0 of Inl e \<Rightarrow> Inl e | Inr f \<Rightarrow> Inr (F_notFilter f)))"
| "compile_filter (FilterNode MATCH_APPROX a es) =
     (case attr_and_value a of Inl e \<Rightarrow> Inl e | Inr (attr, v) \<Rightarrow> Inr (F_approxMatch attr v))"
| "compile_filter (FilterNode MATCH_GREATER_OR_EQUAL a es) =
     (case attr_and_value a of Inl e \<Rightarrow> Inl e | Inr (attr, v) \<Rightarrow> Inr (F_greaterOrEqual attr v))"
| "compile_filter (FilterNode MATCH_LESS_OR_EQUAL a es) =
     (case attr_and_value a of Inl e \<Rightarrow> Inl e | Inr (attr, v) \<Rightarrow> Inr (F_lessOrEqual attr v))"
| "compile_filter (FilterNode MATCH_EXTENSIBLE a es) =
     (case a of
        None \<Rightarrow> Inl TypeError
      | Some (AttrValueRule attr v matching_rule dn_attributes) \<Rightarrow>
          Inr (F_extensibleMatch
                 (if truthy matching_rule then matching_rule else None)
                 (if truthy attr then attr else None) v dn_attributes)
      | Some _ \<Rightarrow> Inl KeyError)"
| "compile_filter (FilterNode MATCH_PRESENT a es) =
     (case a of
        None \<Rightarrow> Inl TypeError
      | Some (Attr attr) \<Rightarrow> Inr (F_present attr)
      | Some _ \<Rightarrow> Inl KeyError)"
| "compile_filter (FilterNode MATCH_SUBSTRING a es) =
     (case a of
        None \<Rightarrow> Inl TypeError
      | Some (AttrSubstrings attr initial any_string final) \<Rightarrow>
          Inr (F_substringFilter attr
                 ((if truthy initial then [Initial (the initial)] else [])
                  @ map Any any_string
                  @ (if truthy final then [Final (the final)] else [])))
      | Some _ \<Rightarrow> Inl KeyError)"
| "compile_filter (FilterNode MATCH_EQUAL a es) =
     (case attr_and_value a of Inl e \<Rightarrow> Inl e | Inr (attr, v) \<Rightarrow> Inr (F_equalityMatch attr v))"
| "compile_filter (FilterNode ROOT a es) = Inl (LDAPException ''unknown filter'')"

text \<open>\<open>parse_filter(search_filter).elements[0]\<close>, compiled.\<close>

definition first_element :: "FilterNode \<Rightarrow> error + FilterNode" where
  "first_element n = (case elements n of [] \<Rightarrow> Inl IndexError | e0 # _ \<Rightarrow> Inr e0)"

definition build_filter :: "string \<Rightarrow> error + Filter" where
  "build_filter search_filter =
     (case parse_filter search_filter of
        Inl e \<Rightarrow> Inl e
      | Inr root_node \<Rightarrow>
          (case first_element root_node of
             Inl e \<Rightarrow> Inl e
           | Inr n \<Rightarrow> compile_filter n))"

section \<open>The decompiler\<close>

text \<open>
  Modelled from the spec: \<open>ava_to_dict\<close> of the package's \<open>protocol.convert\<close> module, which
  is not among the sources. An attribute-value assertion is rendered as \<open>(attr<op>value)\<close>:
  the dictionary holds the attribute description and the assertion value as text.
\<close>

definition ava_to_dict :: "string \<Rightarrow> string \<Rightarrow> string \<times> string" where
  "ava_to_dict attribute_desc assertion_value = (attribute_desc, assertion_value)"

text \<open>One round of the loop over the substrings; \<open>filter_string\<close> is what was written so far.\<close>

fun substring_to_string :: "string \<Rightarrow> Substring \<Rightarrow> string" where
  "substring_to_string filter_string (Initial s) =
     (if s \<noteq> [] then filter_string @ s @ ''*'' else filter_string)"
| "substring_to_string filter_string (Any s) =
     (if s \<noteq> []
      then (filter_string @ (if endswith filter_string ''*'' then s else ''*'' @ s)) @ ''*''
      else filter_string)"
| "substring_to_string filter_string (Final s) =
     (if s \<noteq> [] then filter_string @ ''*'' @ s else filter_string)"

text \<open>
  \<open>filter_to_string\<close>. The text of an extensible match is \<open>str\<close> of the protocol object,
  which the protocol module decides: it is the parameter \<open>mra\<close>. The last branch of the
  source, for a component name that is none of the ten, has no value of \<open>Filter\<close>.
\<close>

fun filter_to_string ::
  "(string option \<Rightarrow> string option \<Rightarrow> string \<Rightarrow> bool option \<Rightarrow> string) \<Rightarrow> Filter \<Rightarrow> string" where
  "filter_to_string mra (F_and fs) = ''('' @ ''&'' @ concat (map (filter_to_string mra) fs) @ '')''"
| "filter_to_string mra (F_or fs) = ''('' @ ''!'' @ concat (map (filter_to_string mra) fs) @ '')''"
| "filter_to_string mra (F_notFilter f) = ''('' @ ''!'' @ filter_to_string mra f @ '')''"
| "filter_to_string mra (F_equalityMatch attribute_desc assertion_value) =
     (case ava_to_dict attribute_desc assertion_value of
        (attribute, v) \<Rightarrow> ''('' @ attribute @ ''='' @ v @ '')'')"
| "filter_to_string mra (F_substringFilter attribute substrings) =
     foldl substring_to_string (''('' @ attribute @ ''='') substrings @ '')''"
| "filter_to_string mra (F_greaterOrEqual attribute_desc assertion_value) =
     (case ava_to_dict attribute_desc assertion_value of
        (attribute, v) \<Rightarrow> ''('' @ attribute @ ''>='' @ v @ '')'')"
| "filter_to_string mra (F_lessOrEqual attribute_desc assertion_value) =
     (case ava_to_dict attribute_desc assertion_value of
        (attribute, v) \<Rightarrow> ''('' @ attribute @ ''<='' @ v @ '')'')"
| "filter_to_string mra (F_present attribute) = ''('' @ attribute @ ''=*'' @ '')''"
| "filter_to_string mra (F_approxMatch attribute_desc assertion_value) =
     (case ava_to_dict attribute_desc assertion_value of
        (attribute, v) \<Rightarrow> ''('' @ attribute @ ''~='' @ v @ '')'')"
| "filter_to_string mra (F_extensibleMatch matching_rule attr v dn_attributes) =
     ''('' @ mra matching_rule attr v dn_attributes @ '')''"

section \<open>The search request\<close>

text \<open>
  The constants that \<open>search.py\<close> imports from the package \<open>ldap3\<close>, and the bound
  \<open>maxInt\<close> of the protocol module, are defined outside the sources at hand; the
  operation takes them as a parameter.
\<close>

record ldap3_constants =
  SEARCH_SCOPE_BASE_OBJECT :: int
  SEARCH_SCOPE_SINGLE_LEVEL :: int
  SEARCH_SCOPE_WHOLE_SUBTREE :: int
  SEARCH_NEVER_DEREFERENCE_ALIASES :: int
  SEARCH_DEREFERENCE_IN_SEARCHING :: int
  SEARCH_DEREFERENCE_FINDING_BASE_OBJECT :: int
  SEARCH_DEREFERENCE_ALWAYS :: int
  NO_ATTRIBUTES :: string
  MAXINT :: int

datatype Scope = baseObject | singleLevel | wholeSubtree

datatype DerefAliases = neverDerefAliases | derefInSearching | derefFindingBaseObj | derefAlways

datatype Selector = Selector string

record SearchRequest =
  sr_baseObject :: string
  sr_scope :: Scope
  sr_derefAliases :: DerefAliases
  sr_sizeLimit :: int
  sr_timeLimit :: int
  sr_typesOnly :: bool
  sr_filter :: Filter
  sr_attributes :: "Selector list"

text \<open>The \<open>attributes\<close> argument: a Python list of names, or a value of any other type.\<close>

datatype attributes_arg = AttributeList "string list" | NotAList

text \<open>
  Modelled from the spec: the field class \<open>Integer0ToMax\<close> of the package's protocol
  module, which is not among the sources. The size limit and the time limit are
  non-negative integers, and the head of \<open>search.py\<close> gives both fields as
  \<open>INTEGER (0 .. maxInt)\<close>: the constructor refuses a value outside that range.
\<close>

definition Integer0ToMax :: "ldap3_constants \<Rightarrow> int \<Rightarrow> error + int" where
  "Integer0ToMax K v = (if 0 \<le> v \<and> v \<le> MAXINT K then Inr v else Inl ValueConstraintError)"

definition build_attribute_selection :: "string list \<Rightarrow> Selector list" where
  "build_attribute_selection attribute_list = map Selector attribute_list"

definition search_operation ::
  "ldap3_constants \<Rightarrow> string \<Rightarrow> string \<Rightarrow> int \<Rightarrow> int \<Rightarrow> attributes_arg \<Rightarrow> int \<Rightarrow> int \<Rightarrow> bool
     \<Rightarrow> error + SearchRequest" where
  "search_operation K search_base search_filter search_scope dereference_aliases attributes
       size_limit time_limit types_only =
     (if search_scope \<noteq> SEARCH_SCOPE_BASE_OBJECT K \<and> search_scope \<noteq> SEARCH_SCOPE_SINGLE_LEVEL K
         \<and> search_scope \<noteq> SEARCH_SCOPE_WHOLE_SUBTREE K
      then Inl (LDAPException ''invalid scope type'')
      else if dereference_aliases \<noteq> SEARCH_NEVER_DEREFERENCE_ALIASES K
         \<and> dereference_aliases \<noteq> SEARCH_DEREFERENCE_IN_SEARCHING K
         \<and> dereference_aliases \<noteq> SEARCH_DEREFERENCE_FINDING_BASE_OBJECT K
         \<and> dereference_aliases \<noteq> SEARCH_DEREFERENCE_ALWAYS K
      then Inl (LDAPException ''invalid dereference aliases type'')
      else
        (case Integer0ToMax K size_limit of
           Inl e \<Rightarrow> Inl e
         | Inr size_limit_field \<Rightarrow>
        (case Integer0ToMax K time_limit of
           Inl e \<Rightarrow> Inl e
         | Inr time_limit_field \<Rightarrow>
        (case parse_filter search_filter of
           Inl e \<Rightarrow> Inl e
         | Inr root_node \<Rightarrow>
        (case first_element root_node of
           Inl e \<Rightarrow> Inl e
         | Inr n \<Rightarrow>
        (case compile_filter n of
           Inl e \<Rightarrow> Inl e
         | Inr compiled \<Rightarrow>
             Inr \<lparr>sr_baseObject = search_base,
                  sr_scope =
                    (if search_scope = SEARCH_SCOPE_BASE_OBJECT K then baseObject
                     else if search_scope = SEARCH_SCOPE_SINGLE_LEVEL K then singleLevel
                     else wholeSubtree),
                  sr_derefAliases =
                    (if dereference_aliases = SEARCH_NEVER_DEREFERENCE_ALIASES K
                     then neverDerefAliases
                     else if dereference_aliases = SEARCH_DEREFERENCE_IN_SEARCHING K
                     then derefInSearching
                     else if dereference_aliases = SEARCH_DEREFERENCE_FINDING_BASE_OBJECT K
                     then derefFindingBaseObj
                     else derefAlways),
                  sr_sizeLimit = size_limit_field,
                  sr_timeLimit = time_limit_field,
                  sr_typesOnly = types_only,
                  sr_filter = compiled,
                  sr_attributes =
                    build_attribute_selection
                      (case attributes of
                         AttributeList attribute_list \<Rightarrow> attribute_list
                       | NotAList \<Rightarrow> [NO_ATTRIBUTES K])\<rparr>))))))"

section \<open>Decoding an entry response\<close>

text \<open>
  An attribute of a \<open>SearchResultEntry\<close>: its type and its values, each a string of
  octets. \<open>bytes(val)\<close> is the octets; \<open>str(val)\<close> is the text the protocol module
  makes of them, which the sources at hand do not define: it is the parameter \<open>str_of\<close>
  of the decoders. \<open>if val\<close> asks whether there is any octet. A Python dictionary whose
  values may be \<open>None\<close> is a map to an option.
\<close>

type_synonym octets = string

record PartialAttribute =
  pa_type :: octets
  pa_vals :: "octets list"

record SearchResultEntry =
  sre_object :: octets
  sre_attributes :: "PartialAttribute list"

definition decode_vals :: "(octets \<Rightarrow> string) \<Rightarrow> octets list \<Rightarrow> string list option" where
  "decode_vals str_of vals =
     (if vals \<noteq> [] then Some (map str_of (filter (\<lambda>val. val \<noteq> []) vals)) else None)"

definition attributes_to_dict ::
  "(octets \<Rightarrow> string) \<Rightarrow> PartialAttribute list \<Rightarrow> (string \<rightharpoonup> string list option)" where
  "attributes_to_dict str_of attribute_list =
     foldl (\<lambda>attributes attribute.
              attributes(str_of (pa_type attribute) \<mapsto> decode_vals str_of (pa_vals attribute)))
       Map.empty attribute_list"

definition decode_raw_vals :: "octets list \<Rightarrow> octets list option" where
  "decode_raw_vals vals = (if vals \<noteq> [] then Some vals else None)"

definition raw_attributes_to_dict ::
  "(octets \<Rightarrow> string) \<Rightarrow> PartialAttribute list \<Rightarrow> (string \<rightharpoonup> octets list option)" where
  "raw_attributes_to_dict str_of attribute_list =
     foldl (\<lambda>attributes attribute.
              attributes(str_of (pa_type attribute) \<mapsto> decode_raw_vals (pa_vals attribute)))
       Map.empty attribute_list"

record entry_dict =
  dn :: string
  attributes :: "string \<rightharpoonup> string list option"
  raw_attributes :: "string \<rightharpoonup> octets list option"

definition search_result_entry_response_to_dict ::
  "(octets \<Rightarrow> string) \<Rightarrow> SearchResultEntry \<Rightarrow> entry_dict" where
  "search_result_entry_response_to_dict str_of response =
     \<lparr>dn = str_of (sre_object response),
      attributes = attributes_to_dict str_of (sre_attributes response),
      raw_attributes = raw_attributes_to_dict str_of (sre_attributes response)\<rparr>"

section \<open>Values for stating the properties\<close>

text \<open>
  An instance of the imported constants for the concrete evaluations below: the numbers of
  the enumerations in the comment at the head of \<open>search.py\<close>, the object identifier
  1.1 as the name that asks for no attributes, and the largest 32-bit signed integer as
  \<open>maxInt\<close>.
\<close>

definition example_constants :: ldap3_constants where
  "example_constants =
     \<lparr>SEARCH_SCOPE_BASE_OBJECT = 0, SEARCH_SCOPE_SINGLE_LEVEL = 1,
      SEARCH_SCOPE_WHOLE_SUBTREE = 2, SEARCH_NEVER_DEREFERENCE_ALIASES = 0,
      SEARCH_DEREFERENCE_IN_SEARCHING = 1, SEARCH_DEREFERENCE_FINDING_BASE_OBJECT = 2,
      SEARCH_DEREFERENCE_ALWAYS = 3, NO_ATTRIBUTES = ''1.1'',
      MAXINT = 2147483647\<rparr>"

text \<open>
  An instance of \<open>str_of\<close> for the concrete evaluations below, whose octets are all ASCII:
  the text of ASCII octets is the same characters.
\<close>

definition ascii_text :: "octets \<Rightarrow> string" where
  "ascii_text val = val"

section \<open>Unfolding the definitions\<close>

lemmas str_defs = strip_def isspace_def split_def replace_def endswith_def startswith_def
  count_def whitespace_def

lemmas leaf_defs = evaluate_match_def validate_assertion_value_def

lemmas parse_defs = parse_filter_def parse_step_def append_node_def parent_def pos_set_def
  enumerate_eq_zip

lemma attributes_to_dict_snoc:
  "attributes_to_dict str_of (attribute_list @ [attribute]) =
     (attributes_to_dict str_of attribute_list)
       (str_of (pa_type attribute) \<mapsto> decode_vals str_of (pa_vals attribute))"
  by (simp add: attributes_to_dict_def)

section \<open>The claims\<close>

text \<open>
  C1. A clause that contains \<open>~=\<close> should give an approximate-match leaf, split at the
  first \<open>~=\<close>; \<open>cn~=Bob\<close> should give attr \<open>cn\<close> and value \<open>Bob\<close>. The source splits
  with \<open>split\<close> and unpacks three names, where the other operators use \<open>partition\<close>:
  \<open>cn~=Bob\<close> splits in two pieces and the unpacking raises \<open>ValueError\<close>.
\<close>

theorem evaluate_match_approx_unpacking:
  "evaluate_match ''cn~=Bob'' = Inl ValueError"
  by (simp add: str_defs leaf_defs)

text \<open>
  C2. Decompiling a compiled filter should give a string that parses to the same tree. For
  the disjunction \<open>(|(cn=a)(cn=b))\<close> the decompiler writes \<open>!\<close> where \<open>|\<close> belongs, and the
  text it gives is rejected by the parser as a negation of two filters. The same happens
  for \<open>(|(cn=*)(sn=*))\<close>, whose text does not go through \<open>ava_to_dict\<close>.
\<close>

theorem filter_to_string_or_not_reparsed:
  "build_filter ''(|(cn=a)(cn=b))'' =
     Inr (F_or [F_equalityMatch ''cn'' ''a'', F_equalityMatch ''cn'' ''b''])
   \<and> filter_to_string (\<lambda>matching_rule attr v dn_attributes. v)
        (F_or [F_equalityMatch ''cn'' ''a'', F_equalityMatch ''cn'' ''b''])
       = ''(!(cn=a)(cn=b))''
   \<and> parse_filter ''(!(cn=a)(cn=b))'' =
       Inl (LDAPException ''Not clause in filter cannot be multiple'')
   \<and> build_filter ''(|(cn=*)(sn=*))'' = Inr (F_or [F_present ''cn'', F_present ''sn''])
   \<and> filter_to_string (\<lambda>matching_rule attr v dn_attributes. v)
        (F_or [F_present ''cn'', F_present ''sn'']) = ''(!(cn=*)(sn=*))''
   \<and> parse_filter ''(!(cn=*)(sn=*))'' =
       Inl (LDAPException ''Not clause in filter cannot be multiple'')"
  by (simp add: build_filter_def first_element_def attr_and_value_def ava_to_dict_def
        str_defs parse_defs leaf_defs)

text \<open>
  C3. The normalizer should put the NUL character in place of \<open>\00\<close>. The source computes
  that replacement and does not assign it: \<open>a\00b\<close> comes back as it went in, with no NUL
  character in it.
\<close>

theorem validate_assertion_value_keeps_00:
  "validate_assertion_value (''a'' @ [BSL] @ ''00b'') = ''a'' @ [BSL] @ ''00b''
   \<and> CHR 0x00 \<notin> set (validate_assertion_value (''a'' @ [BSL] @ ''00b''))"
  by (simp add: str_defs leaf_defs)

text \<open>
  C4. The parser should fail with an \<open>LDAPException\<close> only. Two inputs that pass the
  checks on the parentheses end otherwise: \<open>(cn~=Bob)\<close> with the \<open>ValueError\<close> of the
  unpacking in \<open>evaluate_match\<close>, and \<open>(a=b))(&(c=d)\<close> with an \<open>AttributeError\<close>, since
  the second closing parenthesis moves the cursor to the parent of the root, which is
  \<open>None\<close>, and \<open>&\<close> then appends to it.
\<close>

theorem parse_filter_other_exceptions:
  "parse_filter ''(cn~=Bob)'' = Inl ValueError
   \<and> parse_filter ''(a=b))(&(c=d)'' = Inl AttributeError"
  by (simp add: str_defs parse_defs leaf_defs)

text \<open>
  C5, as stated: \<open>parse_filter("()")\<close> fails with "missing boolean operator in filter".
  It does not: the scan stops before the children of the root are counted.
\<close>

theorem parse_filter_empty_parentheses_counterexample:
  "parse_filter ''()'' \<noteq> Inl (LDAPException ''missing boolean operator in filter'')"
  by (simp add: str_defs parse_defs)

text \<open>
  C5, amended: \<open>parse_filter("()")\<close> fails with "malformed filter". After the opening
  parenthesis the scanner expects a boolean operator or the first character of a clause, and
  a closing parenthesis is neither.
\<close>

theorem parse_filter_empty_parentheses:
  "parse_filter ''()'' = Inl (LDAPException ''malformed filter'')"
  by (simp add: str_defs parse_defs)

text \<open>
  C6, as stated: an empty list of attributes is replaced by the single selector
  \<open>NO_ATTRIBUTES\<close>. It is not: the request built for the empty list has an empty
  attribute selection.
\<close>

theorem search_operation_empty_list_counterexample:
  "search_operation example_constants ''o=test'' ''(cn=*)'' 2 0 (AttributeList []) 0 0 False =
     Inr \<lparr>sr_baseObject = ''o=test'', sr_scope = wholeSubtree,
          sr_derefAliases = neverDerefAliases, sr_sizeLimit = 0, sr_timeLimit = 0,
          sr_typesOnly = False, sr_filter = F_present ''cn'', sr_attributes = []\<rparr>
   \<and> [] \<noteq> [Selector (NO_ATTRIBUTES example_constants)]"
  by (simp add: search_operation_def Integer0ToMax_def example_constants_def first_element_def
        build_attribute_selection_def str_defs parse_defs leaf_defs)

text \<open>
  C6, amended: in a request that \<open>search_operation\<close> builds, the attribute selection is
  the single selector \<open>NO_ATTRIBUTES\<close> when the \<open>attributes\<close> argument is not a list, and
  one selector for each name, in order, when it is a list; for the empty list it is empty.
\<close>

theorem search_operation_attributes:
  assumes "search_operation K search_base search_filter search_scope dereference_aliases
             attributes_arg size_limit time_limit types_only = Inr request"
  shows "sr_attributes request =
           (case attributes_arg of
              AttributeList attribute_list \<Rightarrow> map Selector attribute_list
            | NotAList \<Rightarrow> [Selector (NO_ATTRIBUTES K)])"
  using assms
  by (auto simp: search_operation_def build_attribute_selection_def
           split: if_splits sum.splits attributes_arg.splits)

text \<open>C6, the amended statement at a call whose \<open>attributes\<close> argument is not a list.\<close>

theorem search_operation_attributes_witness:
  "search_operation example_constants ''o=test'' ''(cn=*)'' 2 0 NotAList 0 0 False =
     Inr \<lparr>sr_baseObject = ''o=test'', sr_scope = wholeSubtree,
          sr_derefAliases = neverDerefAliases, sr_sizeLimit = 0, sr_timeLimit = 0,
          sr_typesOnly = False, sr_filter = F_present ''cn'',
          sr_attributes = [Selector ''1.1'']\<rparr>
   \<and> sr_attributes
        \<lparr>sr_baseObject = ''o=test'', sr_scope = wholeSubtree,
         sr_derefAliases = neverDerefAliases, sr_sizeLimit = 0, sr_timeLimit = 0,
         sr_typesOnly = False, sr_filter = F_present ''cn'',
         sr_attributes = [Selector ''1.1'']\<rparr>
       = [Selector (NO_ATTRIBUTES example_constants)]"
proof -
  have h: "search_operation example_constants ''o=test'' ''(cn=*)'' 2 0 NotAList 0 0 False =
     Inr \<lparr>sr_baseObject = ''o=test'', sr_scope = wholeSubtree,
          sr_derefAliases = neverDerefAliases, sr_sizeLimit = 0, sr_timeLimit = 0,
          sr_typesOnly = False, sr_filter = F_present ''cn'',
          sr_attributes = [Selector ''1.1'']\<rparr>"
    by (simp add: search_operation_def Integer0ToMax_def example_constants_def first_element_def
          build_attribute_selection_def str_defs parse_defs leaf_defs)
  from search_operation_attributes [OF h] h show ?thesis
    by simp
qed

text \<open>
  C7, as stated: an attribute with no values is not a key of the decoded \<open>attributes\<close>
  dictionary. It is a key: the dictionary maps it to \<open>None\<close>.
\<close>

theorem entry_attribute_without_values_counterexample:
  "''mail'' \<in> dom (attributes (search_result_entry_response_to_dict ascii_text
       \<lparr>sre_object = ''cn=Bob,o=test'',
        sre_attributes = [\<lparr>pa_type = ''mail'', pa_vals = []\<rparr>]\<rparr>))
   \<and> attributes (search_result_entry_response_to_dict ascii_text
       \<lparr>sre_object = ''cn=Bob,o=test'',
        sre_attributes = [\<lparr>pa_type = ''mail'', pa_vals = []\<rparr>]\<rparr>) ''mail'' = Some None"
  by (simp add: search_result_entry_response_to_dict_def attributes_to_dict_def
        decode_vals_def ascii_text_def)

text \<open>
  C7, amended: the decoded \<open>attributes\<close> dictionary has a key for the text of every
  attribute type of the response and no other, and the last attribute with that text
  decides its value: \<open>None\<close> when that attribute has no values, and otherwise the list,
  in order, of \<open>str(val)\<close> for each of its values \<open>val\<close> that has at least one octet.
  Whatever \<open>str\<close> makes of the octets is kept, the empty text too.
\<close>

theorem entry_attributes_decoded:
  "attributes (search_result_entry_response_to_dict str_of response) name =
     (case find (\<lambda>attribute. str_of (pa_type attribute) = name)
             (rev (sre_attributes response)) of
        None \<Rightarrow> None
      | Some attribute \<Rightarrow>
          Some (if pa_vals attribute = [] then None
                else Some (map str_of (filter (\<lambda>val. val \<noteq> []) (pa_vals attribute)))))"
proof -
  have "attributes_to_dict str_of attribute_list name =
     (case find (\<lambda>attribute. str_of (pa_type attribute) = name) (rev attribute_list) of
        None \<Rightarrow> None
      | Some attribute \<Rightarrow>
          Some (if pa_vals attribute = [] then None
                else Some (map str_of (filter (\<lambda>val. val \<noteq> []) (pa_vals attribute)))))"
    for attribute_list
  proof (induction attribute_list rule: rev_induct)
    case Nil
    then show ?case by (simp add: attributes_to_dict_def)
  next
    case (snoc attribute attribute_list)
    then show ?case
      by (simp add: attributes_to_dict_snoc decode_vals_def)
  qed
  then show ?thesis
    by (simp add: search_result_entry_response_to_dict_def)
qed

text \<open>
  C8. A second child appended to a \<open>NOT\<close> node should fail with "Not clause in filter
  cannot be multiple". The source checks this where a leaf is appended and not where a
  boolean operator is: \<open>(!(cn=Bob)(&(sn=X)))\<close> parses to a \<open>NOT\<close> node with two children,
  of which the compiler keeps the first. With a leaf as second child the error is raised,
  and a \<open>NOT\<close> node with one child parses.
\<close>

theorem parse_filter_not_second_child:
  "parse_filter ''(!(cn=Bob)(&(sn=X)))'' =
     Inr (FilterNode ROOT None
            [FilterNode NOT None
               [FilterNode MATCH_EQUAL (Some (AttrValue ''cn'' ''Bob'')) [],
                FilterNode AND None
                  [FilterNode MATCH_EQUAL (Some (AttrValue ''sn'' ''X'')) []]]])
   \<and> build_filter ''(!(cn=Bob)(&(sn=X)))'' = Inr (F_notFilter (F_equalityMatch ''cn'' ''Bob''))
   \<and> parse_filter ''(!(cn=Bob)(sn=X))'' =
       Inl (LDAPException ''Not clause in filter cannot be multiple'')
   \<and> parse_filter ''(!(cn=Bob))'' =
       Inr (FilterNode ROOT None
              [FilterNode NOT None
                 [FilterNode MATCH_EQUAL (Some (AttrValue ''cn'' ''Bob'')) []]])"
  by (simp add: build_filter_def first_element_def attr_and_value_def
        str_defs parse_defs leaf_defs)

text \<open>
  C9. A clause that reaches the substring rule should give a \<open>MATCH_SUBSTRING\<close> leaf
  whose \<open>initial\<close>, \<open>any\<close> and \<open>final\<close> are the pieces of the value between the
  \<open>*\<close>, each normalized. The pieces are cut as the claim says, and
  \<open>parse_filter("(cn=*ob*b*)")\<close> gives no initial, \<open>any = ["ob", "b"]\<close> and no final.
  But the normalizer leaves \<open>\00\<close> as it is: the clause \<open>cn=a\00*b\<close> contains none of
  \<open>~=\<close>, \<open>>=\<close>, \<open><=\<close>, \<open>:=\<close>, does not end with \<open>=*\<close>, contains \<open>=\<close> and
  \<open>*\<close>, and its \<open>initial\<close> is \<open>a\00\<close>, with no NUL character in it.
\<close>

theorem evaluate_match_substring_keeps_00:
  "\<not> contains ''~='' (strip (''cn=a'' @ [BSL] @ ''00*b''))
   \<and> \<not> contains ''>='' (strip (''cn=a'' @ [BSL] @ ''00*b''))
   \<and> \<not> contains ''<='' (strip (''cn=a'' @ [BSL] @ ''00*b''))
   \<and> \<not> contains '':='' (strip (''cn=a'' @ [BSL] @ ''00*b''))
   \<and> \<not> endswith (strip (''cn=a'' @ [BSL] @ ''00*b'')) ''=*''
   \<and> contains ''='' (strip (''cn=a'' @ [BSL] @ ''00*b''))
   \<and> contains ''*'' (strip (''cn=a'' @ [BSL] @ ''00*b''))
   \<and> evaluate_match (''cn=a'' @ [BSL] @ ''00*b'') =
       Inr (FilterNode MATCH_SUBSTRING
              (Some (AttrSubstrings ''cn'' (Some (''a'' @ [BSL] @ ''00'')) [] (Some ''b''))) [])
   \<and> parse_filter (''(cn=a'' @ [BSL] @ ''00*b)'') =
       Inr (FilterNode ROOT None
              [FilterNode MATCH_SUBSTRING
                 (Some (AttrSubstrings ''cn'' (Some (''a'' @ [BSL] @ ''00'')) [] (Some ''b''))) []])
   \<and> CHR 0x00 \<notin> set (''a'' @ [BSL] @ ''00'')
   \<and> parse_filter ''(cn=*ob*b*)'' =
       Inr (FilterNode ROOT None
              [FilterNode MATCH_SUBSTRING
                 (Some (AttrSubstrings ''cn'' None [''ob'', ''b''] None)) []])"
  by (simp add: str_defs parse_defs leaf_defs)

text \<open>
  C10. The filter of a request that \<open>search_operation\<close> builds is the result of
  \<open>build_filter\<close> on the same string; and when \<open>build_filter\<close> succeeds on a string, the
  scope and the dereference policy are among the known constants, and the size limit and
  the time limit are between 0 and \<open>maxInt\<close>, \<open>search_operation\<close> builds a request,
  whose filter is that result.
\<close>

theorem search_operation_filter:
  "(search_operation K search_base search_filter search_scope dereference_aliases
        attributes_arg size_limit time_limit types_only = Inr request
      \<longrightarrow> build_filter search_filter = Inr (sr_filter request))
   \<and> (build_filter search_filter = Inr compiled
        \<and> search_scope \<in> {SEARCH_SCOPE_BASE_OBJECT K, SEARCH_SCOPE_SINGLE_LEVEL K,
                           SEARCH_SCOPE_WHOLE_SUBTREE K}
        \<and> dereference_aliases \<in> {SEARCH_NEVER_DEREFERENCE_ALIASES K,
              SEARCH_DEREFERENCE_IN_SEARCHING K, SEARCH_DEREFERENCE_FINDING_BASE_OBJECT K,
              SEARCH_DEREFERENCE_ALWAYS K}
        \<and> 0 \<le> size_limit \<and> size_limit \<le> MAXINT K
        \<and> 0 \<le> time_limit \<and> time_limit \<le> MAXINT K
      \<longrightarrow> (\<exists>built.
             search_operation K search_base search_filter search_scope dereference_aliases
               attributes_arg size_limit time_limit types_only = Inr built
             \<and> sr_filter built = compiled))"
proof (intro conjI impI)
  assume "search_operation K search_base search_filter search_scope dereference_aliases
        attributes_arg size_limit time_limit types_only = Inr request"
  then show "build_filter search_filter = Inr (sr_filter request)"
    by (auto simp: search_operation_def build_filter_def Integer0ToMax_def
             split: if_splits sum.splits)
next
  assume "build_filter search_filter = Inr compiled
        \<and> search_scope \<in> {SEARCH_SCOPE_BASE_OBJECT K, SEARCH_SCOPE_SINGLE_LEVEL K,
                           SEARCH_SCOPE_WHOLE_SUBTREE K}
        \<and> dereference_aliases \<in> {SEARCH_NEVER_DEREFERENCE_ALIASES K,
              SEARCH_DEREFERENCE_IN_SEARCHING K, SEARCH_DEREFERENCE_FINDING_BASE_OBJECT K,
              SEARCH_DEREFERENCE_ALWAYS K}
        \<and> 0 \<le> size_limit \<and> size_limit \<le> MAXINT K
        \<and> 0 \<le> time_limit \<and> time_limit \<le> MAXINT K"
  then show "\<exists>built.
             search_operation K search_base search_filter search_scope dereference_aliases
               attributes_arg size_limit time_limit types_only = Inr built
             \<and> sr_filter built = compiled"
    by (auto simp: search_operation_def build_filter_def Integer0ToMax_def
             split: sum.splits)
qed

text \<open>
  C10 at the filter \<open>(&(cn=Bob)(sn=*))\<close>, scope single level, dereference always, size
  limit 10, time limit 20: the request is built, and its filter is what \<open>build_filter\<close>
  returns.
\<close>

theorem search_operation_filter_witness:
  "search_operation example_constants ''o=test'' ''(&(cn=Bob)(sn=*))'' 1 3
       (AttributeList [''cn'', ''sn'']) 10 20 True =
     Inr \<lparr>sr_baseObject = ''o=test'', sr_scope = singleLevel,
          sr_derefAliases = derefAlways, sr_sizeLimit = 10, sr_timeLimit = 20,
          sr_typesOnly = True,
          sr_filter = F_and [F_equalityMatch ''cn'' ''Bob'', F_present ''sn''],
          sr_attributes = [Selector ''cn'', Selector ''sn'']\<rparr>
   \<and> build_filter ''(&(cn=Bob)(sn=*))'' =
       Inr (F_and [F_equalityMatch ''cn'' ''Bob'', F_present ''sn''])
   \<and> (1::int) \<in> {SEARCH_SCOPE_BASE_OBJECT example_constants,
          SEARCH_SCOPE_SINGLE_LEVEL example_constants,
          SEARCH_SCOPE_WHOLE_SUBTREE example_constants}
   \<and> (3::int) \<in> {SEARCH_NEVER_DEREFERENCE_ALIASES example_constants,
          SEARCH_DEREFERENCE_IN_SEARCHING example_constants,
          SEARCH_DEREFERENCE_FINDING_BASE_OBJECT example_constants,
          SEARCH_DEREFERENCE_ALWAYS example_constants}
   \<and> (0::int) \<le> 10 \<and> 10 \<le> MAXINT example_constants
   \<and> (0::int) \<le> 20 \<and> 20 \<le> MAXINT example_constants
   \<and> (\<exists>built.
         search_operation example_constants ''o=test'' ''(&(cn=Bob)(sn=*))'' 1 3
           (AttributeList [''cn'', ''sn'']) 10 20 True = Inr built
         \<and> sr_filter built = F_and [F_equalityMatch ''cn'' ''Bob'', F_present ''sn''])"
proof -
  have r: "search_operation example_constants ''o=test'' ''(&(cn=Bob)(sn=*))'' 1 3
       (AttributeList [''cn'', ''sn'']) 10 20 True =
     Inr \<lparr>sr_baseObject = ''o=test'', sr_scope = singleLevel,
          sr_derefAliases = derefAlways, sr_sizeLimit = 10, sr_timeLimit = 20,
          sr_typesOnly = True,
          sr_filter = F_and [F_equalityMatch ''cn'' ''Bob'', F_present ''sn''],
          sr_attributes = [Selector ''cn'', Selector ''sn'']\<rparr>"
    by (simp add: search_operation_def Integer0ToMax_def example_constants_def first_element_def
          attr_and_value_def build_attribute_selection_def str_defs parse_defs leaf_defs)
  have s: "(1::int) \<in> {SEARCH_SCOPE_BASE_OBJECT example_constants,
          SEARCH_SCOPE_SINGLE_LEVEL example_constants,
          SEARCH_SCOPE_WHOLE_SUBTREE example_constants}"
    by (simp add: example_constants_def)
  have d: "(3::int) \<in> {SEARCH_NEVER_DEREFERENCE_ALIASES example_constants,
          SEARCH_DEREFERENCE_IN_SEARCHING example_constants,
          SEARCH_DEREFERENCE_FINDING_BASE_OBJECT example_constants,
          SEARCH_DEREFERENCE_ALWAYS example_constants}"
    by (simp add: example_constants_def)
  from search_operation_filter [of example_constants "''o=test''" "''(&(cn=Bob)(sn=*))''" 1 3
      "AttributeList [''cn'', ''sn'']" 10 20 True
      "\<lparr>sr_baseObject = ''o=test'', sr_scope = singleLevel,
          sr_derefAliases = derefAlways, sr_sizeLimit = 10, sr_timeLimit = 20,
          sr_typesOnly = True,
          sr_filter = F_and [F_equalityMatch ''cn'' ''Bob'', F_present ''sn''],
          sr_attributes = [Selector ''cn'', Selector ''sn'']\<rparr>"
      "F_and [F_equalityMatch ''cn'' ''Bob'', F_present ''sn'']"] r
  have b: "build_filter ''(&(cn=Bob)(sn=*))'' =
       Inr (F_and [F_equalityMatch ''cn'' ''Bob'', F_present ''sn''])"
    by simp
  have l: "(0::int) \<le> 10 \<and> 10 \<le> MAXINT example_constants
      \<and> (0::int) \<le> 20 \<and> 20 \<le> MAXINT example_constants"
    by (simp add: example_constants_def)
  from search_operation_filter [of example_constants "''o=test''" "''(&(cn=Bob)(sn=*))''" 1 3
      "AttributeList [''cn'', ''sn'']" 10 20 True _
      "F_and [F_equalityMatch ''cn'' ''Bob'', F_present ''sn'']"] b s d l
  have x: "\<exists>built.
         search_operation example_constants ''o=test'' ''(&(cn=Bob)(sn=*))'' 1 3
           (AttributeList [''cn'', ''sn'']) 10 20 True = Inr built
         \<and> sr_filter built = F_and [F_equalityMatch ''cn'' ''Bob'', F_present ''sn'']"
    by blast
  from r b s d l x show ?thesis
    by blast
qed

end
